theory Spec2Isabelle
  imports Main "HOL-Library.Word" "HOL-Library.AList"
begin

section \<open>Data model\<close>

text \<open>
  The program migrates Trello cards to Clubhouse stories. The exporter (the file that
  declares \<open>Card\<close>, \<open>Task\<close> and \<open>Comment\<close>) turns the cards of the Trello client
  into the intermediate \<open>Card\<close>; \<open>import.go\<close> turns those into Clubhouse stories.

  Go's \<open>time.Time\<close> is an instant, modelled as a number of nanoseconds; a
  \<open>*time.Time\<close> is an \<open>option\<close>, \<open>None\<close> being \<open>nil\<close>. A \<open>float32\<close> is only ever
  copied, so it is its bit pattern. An \<open>error\<close> value of a library is its message.
  Record fields carry the name of their struct as a prefix, since Isabelle has one name
  space for all fields.
\<close>

type_synonym Time = int
type_synonym float32 = "32 word"
type_synonym err = string

text \<open>The structs of the Trello client that the exporter reads.\<close>

record Member =
  Member_Id :: string
  Member_FullName :: string

record ActionData =
  Data_Text :: string

record Action =
  Action_Type :: string
  Action_Data :: ActionData
  Action_Date :: string
  Action_MemberCreator :: Member

record ChecklistItem =
  Item_Name :: string
  Item_State :: string

record Checklist =
  Checklist_Name :: string
  Checklist_CheckItems :: "ChecklistItem list"

record Label =
  Label_Name :: string

record Attachment =
  Attachment_Name :: string
  Attachment_Url :: string

record trello_Card =
  TCard_Id :: string
  TCard_IdList :: string
  TCard_Name :: string
  TCard_Desc :: string
  TCard_Labels :: "Label list"
  TCard_Due :: string
  TCard_Pos :: float32
  TCard_ShortUrl :: string
  TCard_IdMembers :: "string list"

text \<open>The exporter's own structs.\<close>

record Task =
  Task_Completed :: bool
  Task_Description :: string

record Comment =
  Comment_Text :: string
  Comment_IDCreator :: string
  Comment_CreatorName :: string
  Comment_CreatedAt :: "Time option"

text \<open>
  \<open>Attachments\<close> is a Go map. Its entries are kept as an association list with one
  entry per key; the order of the list is the order in which a \<open>range\<close> over the map
  visits the entries in the run at hand.
\<close>

record Card =
  Card_Name :: string
  Card_Desc :: string
  Card_Labels :: "string list"
  Card_DueDate :: "Time option"
  Card_IDCreator :: string
  Card_IDOwners :: "string list"
  Card_CreatedAt :: "Time option"
  Card_Comments :: "Comment list"
  Card_Tasks :: "Task list"
  Card_Position :: float32
  Card_ShortURL :: string
  Card_Attachments :: "(string \<times> string) list"

text \<open>
  What ends the process: a nil pointer dereference (a panic nobody recovers) and
  \<open>log.Fatal\<close>, which exits.
\<close>

datatype error = NilPointerDereference | Fatal string

section \<open>The card normalizer\<close>

text \<open>
  The exporter calls the Trello client, the Dropbox client, an HTTP client and the
  standard library's \<open>time.Parse\<close>. They are not part of the program; the record below
  holds their answers. A client call returns its value together with an optional error,
  as in Go; a value that is a pointer is an \<open>option\<close>. \<open>resty_Post\<close> answers with the
  decoded JSON body of the response (\<open>JNull\<close> when the body does not decode), and
  \<open>lctime_Strftime_Now\<close> is the rendering of \<open>time.Now()\<close> at the given iteration.
\<close>

datatype json =
  JNull | JBool bool | JNumber int | JString string
| JArray "json list" | JObject "(string \<times> json) list"

record DropboxShareReq =
  Req_Path :: string

record DropboxShareLink =
  Link_URL :: string
  Link_Path :: string
  Link_Expires :: Time

record DropboxShareLinks =
  Links :: "DropboxShareLink list"

record UploadInput =
  Upload_Path :: string
  Upload_Mode :: string
  Upload_AutoRename :: bool
  Upload_Mute :: bool
  Upload_ClientModified :: string
  Upload_Reader :: string

record UploadOutput =
  PathDisplay :: string

record TrelloEnv =
  time_Parse :: "string \<Rightarrow> string \<Rightarrow> err + Time"
  card_Actions :: "trello_Card \<Rightarrow> Action list \<times> err option"
  card_Checklists :: "trello_Card \<Rightarrow> Checklist list \<times> err option"
  card_Attachments :: "trello_Card \<Rightarrow> Attachment list \<times> err option"
  http_Get :: "string \<Rightarrow> err + string"
  lctime_Strftime_Now :: "nat \<Rightarrow> string"
  files_Upload :: "UploadInput \<Rightarrow> UploadOutput option \<times> err option"
  resty_Post :: "string \<Rightarrow> DropboxShareReq \<Rightarrow> err + json"

record TrelloOptions =
  ProcessImages :: bool

definition dateLayout :: string where
  "dateLayout = ''2006-01-02T15:04:05.000Z''"

definition parseDateOrReturnNil :: "TrelloEnv \<Rightarrow> string \<Rightarrow> Time option" where
  "parseDateOrReturnNil env strDate =
     (case time_Parse env dateLayout strDate of
        Inl e \<Rightarrow> None
      | Inr d \<Rightarrow> Some d)"

text \<open>
  The loop of \<open>getCommentsAndCardCreator\<close> over the actions, with its three variables
  \<open>creator\<close>, \<open>createdAt\<close> and \<open>comments\<close> as the accumulator.
\<close>

fun actions_loop ::
  "TrelloEnv \<Rightarrow> Action list \<Rightarrow> string \<times> Time option \<times> Comment list
     \<Rightarrow> string \<times> Time option \<times> Comment list" where
  "actions_loop env [] acc = acc"
| "actions_loop env (a # as) (creator, createdAt, comments) =
     (if Action_Type a = ''commentCard'' \<and> Data_Text (Action_Data a) \<noteq> '''' then
        actions_loop env as
          (creator, createdAt,
           comments @
             [\<lparr>Comment_Text = Data_Text (Action_Data a),
               Comment_IDCreator = Member_Id (Action_MemberCreator a),
               Comment_CreatorName = Member_FullName (Action_MemberCreator a),
               Comment_CreatedAt = parseDateOrReturnNil env (Action_Date a)\<rparr>])
      else if Action_Type a = ''createCard'' then
        actions_loop env as
          (Member_Id (Action_MemberCreator a),
           parseDateOrReturnNil env (Action_Date a), comments)
      else actions_loop env as (creator, createdAt, comments))"

text \<open>
  An error of \<open>card.Actions()\<close> is printed and otherwise ignored: the loop runs over
  whatever list came back with it.
\<close>

definition getCommentsAndCardCreator ::
  "TrelloEnv \<Rightarrow> trello_Card \<Rightarrow> string \<times> Time option \<times> Comment list" where
  "getCommentsAndCardCreator env crd =
     (let (actions, err) = card_Actions env crd
      in actions_loop env actions ('''', None, []))"

text \<open>The two nested loops of \<open>getCheckListsForCard\<close>.\<close>

fun items_loop :: "string \<Rightarrow> ChecklistItem list \<Rightarrow> Task list \<Rightarrow> Task list" where
  "items_loop clName [] tasks = tasks"
| "items_loop clName (i # its) tasks =
     (let completed = (if Item_State i = ''complete'' then True else False);
          t = \<lparr>Task_Completed = completed,
               Task_Description = clName @ '' - '' @ Item_Name i\<rparr>
      in items_loop clName its (tasks @ [t]))"

fun checklists_loop :: "Checklist list \<Rightarrow> Task list \<Rightarrow> Task list" where
  "checklists_loop [] tasks = tasks"
| "checklists_loop (cl # cls) tasks =
     checklists_loop cls (items_loop (Checklist_Name cl) (Checklist_CheckItems cl) tasks)"

definition getCheckListsForCard :: "TrelloEnv \<Rightarrow> trello_Card \<Rightarrow> Task list" where
  "getCheckListsForCard env crd =
     (let (checklists, err) = card_Checklists env crd
      in checklists_loop checklists [])"

fun labels_loop :: "Label list \<Rightarrow> string list \<Rightarrow> string list" where
  "labels_loop [] labels = labels"
| "labels_loop (l # ls) labels = labels_loop ls (labels @ [Label_Name l])"

definition getLabelsFlattenFromCard :: "trello_Card \<Rightarrow> string list" where
  "getLabelsFlattenFromCard crd = labels_loop (TCard_Labels crd) []"

section \<open>The attachment relocator\<close>

text \<open>
  \<open>safeFileNameRegexp\<close> is the regular expression \<^verbatim>\<open>[^a-zA-Z0-9_.]+\<close>: one or more
  characters outside the class. Go strings are byte strings and so are HOL's. Every byte
  of a character beyond ASCII is at least 128 and so outside the class, as the character
  itself is, so that the runs of bytes outside the class are the runs of characters
  outside it.
\<close>

definition safeFileNameClass :: "char \<Rightarrow> bool" where
  "safeFileNameClass c \<longleftrightarrow>
     (let n = (of_char c :: nat)
      in (97 \<le> n \<and> n \<le> 122) \<or> (65 \<le> n \<and> n \<le> 90) \<or> (48 \<le> n \<and> n \<le> 57)
         \<or> c = CHR ''_'' \<or> c = CHR ''.'')"

text \<open>
  The length of the match of \<open>safeFileNameRegexp\<close> at the start of a string: \<open>+\<close> is
  greedy, so it is the longest prefix outside the class, and there is a match when that
  prefix is not empty.
\<close>

definition safeFileNameRegexp :: "string \<Rightarrow> nat" where
  "safeFileNameRegexp s = length (takeWhile (\<lambda>c. \<not> safeFileNameClass c) s)"

text \<open>
  \<open>safeFileNameRegexp.ReplaceAllString(src, repl)\<close> goes through \<open>src\<close> from the left:
  where the expression matches, the match is replaced by \<open>repl\<close> and the scan goes on
  behind it; elsewhere the character is copied. (The replacement text the program gives
  has no \<open>$\<close> in it, so it stands for itself.)
\<close>

function ReplaceAllString :: "string \<Rightarrow> string \<Rightarrow> string" where
  "ReplaceAllString [] repl = []"
| "ReplaceAllString (c # cs) repl =
     (let n = safeFileNameRegexp (c # cs)
      in if n = 0 then c # ReplaceAllString cs repl
         else repl @ ReplaceAllString (drop n (c # cs)) repl)"
  by pat_completeness auto
termination
  by (relation "measure (\<lambda>(s, repl). length s)") auto

text \<open>
  The verb \<open>%d\<close> of \<open>fmt.Sprintf\<close>: the decimal digits, the last one first into the
  accumulator, behind a minus sign for a negative number.
\<close>

function decimal_digits :: "nat \<Rightarrow> string \<Rightarrow> string" where
  "decimal_digits n acc =
     (let acc' = (''0123456789'' ! (n mod 10)) # acc
      in if n div 10 = 0 then acc' else decimal_digits (n div 10) acc')"
  by pat_completeness auto
termination
  by (relation "measure fst") auto

declare decimal_digits.simps [simp del]

definition Sprintf_d :: "int \<Rightarrow> string" where
  "Sprintf_d i =
     (if 0 \<le> i then decimal_digits (nat i) [] else CHR ''-'' # decimal_digits (nat (- i)) [])"

definition downloadTrelloAttachment :: "TrelloEnv \<Rightarrow> Attachment \<Rightarrow> error + string" where
  "downloadTrelloAttachment env attachment =
     (case http_Get env (Attachment_Url attachment) of
        Inl e \<Rightarrow> Inl (Fatal (''Error in download Trello attachment '' @ e))
      | Inr body \<Rightarrow> Inr body)"

text \<open>
  The sources hold three revisions of the exporter. The model follows the one that
  declares \<open>call\<close>, \<open>createShareLink\<close> and \<open>getSharedLinks\<close>. Of the other two, one
  calls the sharing methods of the Dropbox client in their place and is otherwise the
  same, and the oldest has no attachments at all.

  \<open>call\<close> posts the request and returns the decoded body, or \<open>nil\<close> when the request
  fails.
\<close>

definition call :: "TrelloEnv \<Rightarrow> DropboxShareReq \<Rightarrow> string \<Rightarrow> json" where
  "call env inp endpoint =
     (case resty_Post env (''https://api.dropboxapi.com/2/'' @ endpoint) inp of
        Inl e \<Rightarrow> JNull
      | Inr out \<Rightarrow> out)"

text \<open>
  \<open>createShareLink\<close> and \<open>getSharedLinks\<close> have the named results \<open>out\<close> and \<open>err\<close>.
  Each calls \<open>call\<close>, drops what it returns, and ends with a bare \<open>return\<close>: both
  results still have their zero value, \<open>nil\<close>.
\<close>

definition createShareLink ::
  "TrelloEnv \<Rightarrow> string \<Rightarrow> DropboxShareLink option \<times> err option" where
  "createShareLink env path =
     (let endpoint = ''sharing/create_shared_link_with_settings'';
          sh = \<lparr>Req_Path = path\<rparr>;
          dropped = call env sh endpoint
      in (None, None))"

definition getSharedLinks ::
  "TrelloEnv \<Rightarrow> string \<Rightarrow> DropboxShareLinks option \<times> err option" where
  "getSharedLinks env path =
     (let endpoint = ''/sharing/list_shared_links'';
          sh = \<lparr>Req_Path = path\<rparr>;
          dropped = call env sh endpoint
      in (None, None))"

text \<open>
  One iteration of the loop of \<open>downloadCardAttachmentsUploadToDropbox\<close>: \<open>i\<close> is the
  index, \<open>f\<close> the attachment, \<open>err\<close> the error variable of the function (the one
  \<open>card.Attachments()\<close> set), \<open>sharedLinks\<close> the map built so far. The iteration
  returns the map as it leaves it, or what ends the process. Reading a field through a
  \<open>nil\<close> pointer panics; the arguments of \<open>log.Fatalf\<close> are evaluated before it
  exits.
\<close>

definition resolveLink ::
  "TrelloEnv \<Rightarrow> string \<Rightarrow> UploadOutput \<Rightarrow> (string \<times> string) list
     \<Rightarrow> error + (string \<times> string) list" where
  "resolveLink env name out sharedLinks =
     (case fst (getSharedLinks env (PathDisplay out)) of
        None \<Rightarrow> Inl NilPointerDereference
      | Some links \<Rightarrow>
          if length (Links links) = 0 then
            (case createShareLink env (PathDisplay out) of
               (link, Some e) \<Rightarrow> Inr sharedLinks
             | (None, None) \<Rightarrow> Inl NilPointerDereference
             | (Some link, None) \<Rightarrow> Inr (AList.update name (Link_URL link) sharedLinks))
          else Inr (AList.update name (Link_URL (hd (Links links))) sharedLinks))"

definition attachment_step ::
  "TrelloEnv \<Rightarrow> trello_Card \<Rightarrow> err option \<Rightarrow> nat \<Rightarrow> Attachment
     \<Rightarrow> (string \<times> string) list \<Rightarrow> error + (string \<times> string) list" where
  "attachment_step env crd err i f sharedLinks =
     (let name = ReplaceAllString (Attachment_Name f) ''_'';
          path = ''/trello/'' @ TCard_IdList crd @ ''/'' @ TCard_Id crd @ ''/''
                   @ Sprintf_d (int i) @ ''_'' @ name
      in case downloadTrelloAttachment env f of
           Inl e \<Rightarrow> Inl e
         | Inr r \<Rightarrow>
            (let n = lctime_Strftime_Now env i
             in case err of
                  Some e \<Rightarrow>
                    Inl (Fatal (''Error occurred downloading file from trello... '' @ e))
                | None \<Rightarrow>
                   (let u = \<lparr>Upload_Path = path, Upload_Mode = ''overwrite'',
                             Upload_AutoRename = False, Upload_Mute = True,
                             Upload_ClientModified = n, Upload_Reader = r\<rparr>
                    in case files_Upload env u of
                         (None, uerr) \<Rightarrow> Inl NilPointerDereference
                       | (Some out, Some e) \<Rightarrow>
                           Inl (Fatal (''Error occurred uploading file: '' @ PathDisplay out))
                       | (Some out, None) \<Rightarrow> resolveLink env name out sharedLinks)))"

fun attachments_loop ::
  "TrelloEnv \<Rightarrow> trello_Card \<Rightarrow> err option \<Rightarrow> nat \<Rightarrow> Attachment list
     \<Rightarrow> (string \<times> string) list \<Rightarrow> error + (string \<times> string) list" where
  "attachments_loop env crd err i [] sharedLinks = Inr sharedLinks"
| "attachments_loop env crd err i (f # fs) sharedLinks =
     (case attachment_step env crd err i f sharedLinks of
        Inl e \<Rightarrow> Inl e
      | Inr sharedLinks' \<Rightarrow> attachments_loop env crd err (i + 1) fs sharedLinks')"

definition downloadCardAttachmentsUploadToDropbox ::
  "TrelloEnv \<Rightarrow> trello_Card \<Rightarrow> error + (string \<times> string) list" where
  "downloadCardAttachmentsUploadToDropbox env crd =
     (case card_Attachments env crd of
        (attachments, Some e) \<Rightarrow> Inl (Fatal e)
      | (attachments, None) \<Rightarrow> attachments_loop env crd None 0 attachments [])"

section \<open>The exporter's loop over the cards\<close>

text \<open>The body of the loop of \<open>ProcessCardsForExporting\<close>: the card built from one Trello card.\<close>

definition export_card :: "TrelloEnv \<Rightarrow> TrelloOptions \<Rightarrow> trello_Card \<Rightarrow> error + Card" where
  "export_card env opts crd =
     (let (creator, createdAt, comments) = getCommentsAndCardCreator env crd;
          c = \<lparr>Card_Name = TCard_Name crd,
               Card_Desc = TCard_Desc crd,
               Card_Labels = getLabelsFlattenFromCard crd,
               Card_DueDate = parseDateOrReturnNil env (TCard_Due crd),
               Card_IDCreator = creator,
               Card_IDOwners = TCard_IdMembers crd,
               Card_CreatedAt = createdAt,
               Card_Comments = comments,
               Card_Tasks = getCheckListsForCard env crd,
               Card_Position = TCard_Pos crd,
               Card_ShortURL = TCard_ShortUrl crd,
               Card_Attachments = []\<rparr>
      in if ProcessImages opts then
           (case downloadCardAttachmentsUploadToDropbox env crd of
              Inl e \<Rightarrow> Inl e
            | Inr m \<Rightarrow> Inr (c\<lparr>Card_Attachments := m\<rparr>))
         else Inr c)"

fun cards_loop ::
  "TrelloEnv \<Rightarrow> TrelloOptions \<Rightarrow> trello_Card list \<Rightarrow> Card list \<Rightarrow> error + Card list" where
  "cards_loop env opts [] cards = Inr cards"
| "cards_loop env opts (crd # crds) cards =
     (case export_card env opts crd of
        Inl e \<Rightarrow> Inl e
      | Inr c \<Rightarrow> cards_loop env opts crds (cards @ [c]))"

definition ProcessCardsForExporting ::
  "TrelloEnv \<Rightarrow> trello_Card list \<Rightarrow> TrelloOptions \<Rightarrow> error + Card list" where
  "ProcessCardsForExporting env crds opts = cards_loop env opts crds []"

section \<open>The importer\<close>

text \<open>
  The structs of the Clubhouse client, with the fields the importer reads or writes.
\<close>

record Story =
  Story_ID :: int
  Story_Name :: string
  Story_ProjectID :: int

record LinkedFile =
  LinkedFile_ID :: int

record CreateLinkedFile =
  CreateLinkedFile_Name :: string
  CreateLinkedFile_Type :: string
  CreateLinkedFile_URL :: string
  CreateLinkedFile_UploaderID :: string

record CreateLabel =
  CreateLabel_Name :: string

record CreateTask =
  CreateTask_Complete :: bool
  CreateTask_Description :: string

record CreateComment =
  CreateComment_CreatedAt :: Time
  CreateComment_AuthorID :: string
  CreateComment_Text :: string

record CreateStory =
  CreateStory_ProjectID :: int
  CreateStory_WorkflowStateID :: int
  CreateStory_RequestedByID :: string
  CreateStory_OwnerIds :: "string list"
  CreateStory_StoryType :: string
  CreateStory_FollowerIds :: "string list"
  CreateStory_FileIds :: "int list"
  CreateStory_Name :: string
  CreateStory_Description :: string
  CreateStory_Deadline :: "Time option"
  CreateStory_CreatedAt :: "Time option"
  CreateStory_Labels :: "CreateLabel list"
  CreateStory_Tasks :: "CreateTask list"
  CreateStory_Comments :: "CreateComment list"
  CreateStory_LinkedFileIds :: "int list"

text \<open>
  The Clubhouse service and its client are not part of the program. The service is
  taken to be what its interface says: it keeps the stories and the linked files, gives
  each new one the next identifier, lists the stories of a project, and deletes a story
  by its identifier (an error when there is none). The client \<open>ClubhouseEntry\<close> is the
  record of the calls that fail before they reach the service, with their errors. The
  state also holds the clock that \<open>time.Now()\<close> reads and the lines printed so far: a
  line of text, or the three values given to \<open>Printf\<close> for the columns of
  \<open>outputFormat\<close>.
\<close>

record ClubhouseEntry =
  ListStories_err :: "int \<Rightarrow> err option"
  DeleteStory_err :: "int \<Rightarrow> err option"
  CreateStory_err :: "CreateStory \<Rightarrow> err option"
  CreateLinkedFiles_err :: "CreateLinkedFile \<Rightarrow> err option"

datatype line = Text string | Row string string string

record World =
  stories :: "Story list"
  next_story_id :: int
  linked_files :: "(int \<times> CreateLinkedFile) list"
  next_file_id :: int
  time_Now :: Time
  stdout :: "line list"

definition print :: "line \<Rightarrow> World \<Rightarrow> World" where
  "print l w = w\<lparr>stdout := stdout w @ [l]\<rparr>"


definition DeleteStory :: "ClubhouseEntry \<Rightarrow> int \<Rightarrow> World \<Rightarrow> err option \<times> World" where
  "DeleteStory e storyID w =
     (case DeleteStory_err e storyID of
        Some x \<Rightarrow> (Some x, w)
      | None \<Rightarrow>
          if storyID \<in> Story_ID ` set (stories w) then
            (None, w\<lparr>stories := filter (\<lambda>s. Story_ID s \<noteq> storyID) (stories w)\<rparr>)
          else (Some ''Resource not found'', w))"

definition CreateStory_call ::
  "ClubhouseEntry \<Rightarrow> CreateStory \<Rightarrow> World \<Rightarrow> (err + Story) \<times> World" where
  "CreateStory_call e cs w =
     (case CreateStory_err e cs of
        Some x \<Rightarrow> (Inl x, w)
      | None \<Rightarrow>
          (let st = \<lparr>Story_ID = next_story_id w, Story_Name = CreateStory_Name cs,
                      Story_ProjectID = CreateStory_ProjectID cs\<rparr>
           in (Inr st, w\<lparr>stories := stories w @ [st],
                          next_story_id := next_story_id w + 1\<rparr>)))"

definition CreateLinkedFiles ::
  "ClubhouseEntry \<Rightarrow> CreateLinkedFile \<Rightarrow> World \<Rightarrow> (err + LinkedFile) \<times> World" where
  "CreateLinkedFiles e lf w =
     (case CreateLinkedFiles_err e lf of
        Some x \<Rightarrow> (Inl x, w)
      | None \<Rightarrow>
          (Inr \<lparr>LinkedFile_ID = next_file_id w\<rparr>,
           w\<lparr>linked_files := linked_files w @ [(next_file_id w, lf)],
             next_file_id := next_file_id w + 1\<rparr>))"

text \<open>
  \<open>ClubhouseOptions\<close> is declared in a file that is not among the sources; these are
  the fields \<open>import.go\<close> reads (\<open>opts.Project.ID\<close> is \<open>Opts_Project_ID\<close>, and so on).
  \<open>UserMap\<close> is declared there too: \<open>import.go\<close> only calls its method
  \<open>GetCreator\<close>, a lookup from a Trello member to a Clubhouse user, so a user map is
  taken as that function.
\<close>

record ClubhouseOptions =
  Opts_ClubhouseEntry :: ClubhouseEntry
  Opts_Project_ID :: int
  Opts_State_ID :: int
  Opts_StoryType :: string
  Opts_AddCommentWithTrelloLink :: bool
  Opts_ImportMember_ID :: string

type_synonym UserMap = "string \<Rightarrow> string"

definition GetCreator :: "UserMap \<Rightarrow> string \<Rightarrow> string" where
  "GetCreator um tid = um tid"

text \<open>
  \<open>deleteMatchingStories\<close>: the loop over the indices of \<open>stories\<close> is a recursion
  over the list. The line is printed when \<open>DeleteStory\<close> returns an error.
\<close>

fun deleteMatchingStories :: "Story list \<Rightarrow> ClubhouseOptions \<Rightarrow> Card \<Rightarrow> World \<Rightarrow> World" where
  "deleteMatchingStories [] opts c w = w"
| "deleteMatchingStories (s # ss) opts c w =
     (if Story_Name s = Card_Name c then
        (case DeleteStory (Opts_ClubhouseEntry opts) (Story_ID s) w of
           (Some e, w') \<Rightarrow>
             deleteMatchingStories ss opts c
               (print (Row (Card_ShortURL c) ''Deleted Matching''
                         (''Story ID: '' @ Sprintf_d (Story_ID s))) w')
         | (None, w') \<Rightarrow> deleteMatchingStories ss opts c w')
      else deleteMatchingStories ss opts c w)"

text \<open>\<open>buildLinkFiles\<close>: the loop over the entries of \<open>card.Attachments\<close>.\<close>

fun linkfiles_loop ::
  "Card \<Rightarrow> ClubhouseOptions \<Rightarrow> (string \<times> string) list \<Rightarrow> int list \<Rightarrow> World
     \<Rightarrow> int list \<times> World" where
  "linkfiles_loop c opts [] ids w = (ids, w)"
| "linkfiles_loop c opts ((k, v) # kvs) ids w =
     (let lf = \<lparr>CreateLinkedFile_Name = k, CreateLinkedFile_Type = ''dropbox'',
                 CreateLinkedFile_URL = v,
                 CreateLinkedFile_UploaderID = Opts_ImportMember_ID opts\<rparr>
      in case CreateLinkedFiles (Opts_ClubhouseEntry opts) lf w of
           (Inl e, w') \<Rightarrow>
             linkfiles_loop c opts kvs ids
               (print (Text (''Fail to create linked file card name: '' @ Card_Name c
                         @ '' Dropbox link: '' @ v @ '' Err: '' @ e)) w')
         | (Inr r, w') \<Rightarrow> linkfiles_loop c opts kvs (ids @ [LinkedFile_ID r]) w')"

definition buildLinkFiles :: "Card \<Rightarrow> ClubhouseOptions \<Rightarrow> World \<Rightarrow> int list \<times> World" where
  "buildLinkFiles c opts w = linkfiles_loop c opts (Card_Attachments c) [] w"

fun owners_loop :: "UserMap \<Rightarrow> string list \<Rightarrow> string list \<Rightarrow> string list" where
  "owners_loop um [] owners = owners"
| "owners_loop um (x # xs) owners = owners_loop um xs (owners @ [GetCreator um x])"

definition mapOwnersFromTrelloCard :: "Card \<Rightarrow> UserMap \<Rightarrow> string list" where
  "mapOwnersFromTrelloCard c um = owners_loop um (Card_IDOwners c) []"

text \<open>
  \<open>buildComments\<close>: \<open>CreatedAt: *cm.CreatedAt\<close> reads through the pointer, which
  panics when it is \<open>nil\<close>. The comment with the link has no author: the field keeps
  its zero value.
\<close>

fun comments_loop ::
  "UserMap \<Rightarrow> Comment list \<Rightarrow> CreateComment list \<Rightarrow> error + CreateComment list" where
  "comments_loop um [] comments = Inr comments"
| "comments_loop um (cm # cms) comments =
     (case Comment_CreatedAt cm of
        None \<Rightarrow> Inl NilPointerDereference
      | Some t \<Rightarrow>
          comments_loop um cms
            (comments @
               [\<lparr>CreateComment_CreatedAt = t,
                 CreateComment_AuthorID = GetCreator um (Comment_IDCreator cm),
                 CreateComment_Text = Comment_Text cm\<rparr>]))"

definition buildComments ::
  "Card \<Rightarrow> bool \<Rightarrow> UserMap \<Rightarrow> Time \<Rightarrow> error + CreateComment list" where
  "buildComments c addCommentWithTrelloLink um now =
     (case comments_loop um (Card_Comments c) [] of
        Inl e \<Rightarrow> Inl e
      | Inr comments \<Rightarrow>
          if addCommentWithTrelloLink then
            Inr (comments @
                   [\<lparr>CreateComment_CreatedAt = now,
                     CreateComment_AuthorID = '''',
                     CreateComment_Text =
                       ''Card imported from Trello: '' @ Card_ShortURL c\<rparr>])
          else Inr comments)"

fun tasks_loop :: "Task list \<Rightarrow> CreateTask list \<Rightarrow> CreateTask list" where
  "tasks_loop [] tasks = tasks"
| "tasks_loop (t # ts) tasks =
     tasks_loop ts
       (tasks @ [\<lparr>CreateTask_Complete = Task_Completed t,
                   CreateTask_Description = Task_Description t\<rparr>])"

definition buildTasks :: "Card \<Rightarrow> CreateTask list" where
  "buildTasks c = tasks_loop (Card_Tasks c) []"

fun createlabels_loop :: "string list \<Rightarrow> CreateLabel list \<Rightarrow> CreateLabel list" where
  "createlabels_loop [] labels = labels"
| "createlabels_loop (l # ls) labels =
     createlabels_loop ls (labels @ [\<lparr>CreateLabel_Name = l\<rparr>])"

definition buildLabels :: "Card \<Rightarrow> CreateLabel list" where
  "buildLabels c = createlabels_loop (Card_Labels c) []"

text \<open>
  \<open>buildClubhouseStory\<close>: the calls in the struct literal run from the first field to
  the last, so \<open>buildComments\<close> runs (and may panic) before \<open>buildLinkFiles\<close> talks to
  the service.
\<close>

definition buildClubhouseStory ::
  "Card \<Rightarrow> ClubhouseOptions \<Rightarrow> UserMap \<Rightarrow> World \<Rightarrow> (error + CreateStory) \<times> World" where
  "buildClubhouseStory c opts um w =
     (let requestedBy = GetCreator um (Card_IDCreator c);
          owners = mapOwnersFromTrelloCard c um;
          labels = buildLabels c;
          tasks = buildTasks c
      in case buildComments c (Opts_AddCommentWithTrelloLink opts) um (time_Now w) of
           Inl e \<Rightarrow> (Inl e, w)
         | Inr comments \<Rightarrow>
            (let (ids, w') = buildLinkFiles c opts w
             in (Inr \<lparr>CreateStory_ProjectID = Opts_Project_ID opts,
                      CreateStory_WorkflowStateID = Opts_State_ID opts,
                      CreateStory_RequestedByID = requestedBy,
                      CreateStory_OwnerIds = owners,
                      CreateStory_StoryType = Opts_StoryType opts,
                      CreateStory_FollowerIds = [],
                      CreateStory_FileIds = [],
                      CreateStory_Name = Card_Name c,
                      CreateStory_Description = Card_Desc c,
                      CreateStory_Deadline = Card_DueDate c,
                      CreateStory_CreatedAt = Card_CreatedAt c,
                      CreateStory_Labels = labels,
                      CreateStory_Tasks = tasks,
                      CreateStory_Comments = comments,
                      CreateStory_LinkedFileIds = ids\<rparr>, w')))"

text \<open>
  The body of the loop of \<open>ImportCardsIntoClubhouse\<close> for one card; \<open>snapshot\<close> is the
  list \<open>ListStories\<close> returned before the loop. The result is the state after the card
  and, when the card made the process panic, the panic.
\<close>

definition import_card ::
  "Story list \<Rightarrow> ClubhouseOptions \<Rightarrow> UserMap \<Rightarrow> Card \<Rightarrow> World \<Rightarrow> error option \<times> World" where
  "import_card snapshot opts um c w =
     (let w1 = deleteMatchingStories snapshot opts c w
      in case buildClubhouseStory c opts um w1 of
           (Inl e, w2) \<Rightarrow> (Some e, w2)
         | (Inr req, w2) \<Rightarrow>
            (case CreateStory_call (Opts_ClubhouseEntry opts) req w2 of
               (Inl e, w3) \<Rightarrow> (None, print (Row (Card_ShortURL c) ''Failed'' e) w3)
             | (Inr st, w3) \<Rightarrow>
                 (None, print (Row (Card_ShortURL c) ''Success''
                                 (''Story ID: '' @ Sprintf_d (Story_ID st))) w3)))"



section \<open>Notions used to state the properties\<close>

text \<open>
  A state of the service is well formed when no two stories share an identifier and every
  identifier in use is below the next one to be given out.
\<close>

definition wf_world :: "World \<Rightarrow> bool" where
  "wf_world w \<longleftrightarrow>
     distinct (map Story_ID (stories w)) \<and> (\<forall>s\<in>set (stories w). Story_ID s < next_story_id w)"


text \<open>The number of stories of a project that carry a given name.\<close>

definition count_stories :: "World \<Rightarrow> int \<Rightarrow> string \<Rightarrow> nat" where
  "count_stories w projectID name =
     length (filter (\<lambda>s. Story_ProjectID s = projectID \<and> Story_Name s = name) (stories w))"

text \<open>
  Sanitizing in the words of the specification. \<open>maximal_runs\<close> cuts a string into its
  maximal runs: a character joins the run that follows it when both are inside the class
  or both are outside it, and starts a run of its own otherwise. \<open>sanitize_spec\<close> keeps
  the runs inside the class and puts one underscore for each run outside it.
\<close>

fun maximal_runs :: "string \<Rightarrow> string list" where
  "maximal_runs [] = []"
| "maximal_runs (c # cs) =
     (case maximal_runs cs of
        [] \<Rightarrow> [[c]]
      | r # rs \<Rightarrow>
          if safeFileNameClass c = safeFileNameClass (hd r) then (c # r) # rs
          else [c] # r # rs)"

definition sanitize_spec :: "string \<Rightarrow> string" where
  "sanitize_spec s =
     concat (map (\<lambda>r. if safeFileNameClass (hd r) then r else ''_'') (maximal_runs s))"

section \<open>Concrete inputs\<close>

text \<open>
  The inputs on which the properties below are evaluated. \<open>demo_time_Parse\<close> gives the
  answers of \<open>time.Parse\<close> on the date strings that occur in them; \<open>demo_env\<close> is a run
  in which every download and upload succeeds and Dropbox lists one shared link for
  every path it is asked about.
\<close>

definition demo_time_Parse :: "string \<Rightarrow> string \<Rightarrow> err + Time" where
  "demo_time_Parse layout s =
     (if s = ''2023-05-01T00:00:00.000Z'' then Inr 1682899200000000000
      else if s = ''2023-05-02T10:30:00.000Z'' then Inr 1683023400000000000
      else Inl ''parsing time: cannot parse'')"

definition demo_env :: "Action list \<Rightarrow> Checklist list \<Rightarrow> Attachment list \<Rightarrow> TrelloEnv" where
  "demo_env actions checklists attachments =
     \<lparr>time_Parse = demo_time_Parse,
      card_Actions = (\<lambda>crd. (actions, None)),
      card_Checklists = (\<lambda>crd. (checklists, None)),
      card_Attachments = (\<lambda>crd. (attachments, None)),
      http_Get = (\<lambda>url. Inr ''bytes''),
      lctime_Strftime_Now = (\<lambda>i. ''2023-05-03T08:00:00Z''),
      files_Upload = (\<lambda>u. (Some \<lparr>PathDisplay = Upload_Path u\<rparr>, None)),
      resty_Post = (\<lambda>url req.
         Inr (JObject [(''links'',
                JArray [JObject [(''url'', JString ''https://www.dropbox.com/s/abc''),
                                 (''path_lower'', JString (Req_Path req))]])]))\<rparr>"

definition demo_member :: "string \<Rightarrow> Member" where
  "demo_member i = \<lparr>Member_Id = i, Member_FullName = ''Member '' @ i\<rparr>"

definition demo_actions :: "Action list" where
  "demo_actions =
     [\<lparr>Action_Type = ''createCard'', Action_Data = \<lparr>Data_Text = ''''\<rparr>,
       Action_Date = ''2023-05-01T00:00:00.000Z'', Action_MemberCreator = demo_member ''u1''\<rparr>,
      \<lparr>Action_Type = ''commentCard'', Action_Data = \<lparr>Data_Text = ''LGTM''\<rparr>,
       Action_Date = ''2023-05-02T10:30:00.000Z'', Action_MemberCreator = demo_member ''u1''\<rparr>,
      \<lparr>Action_Type = ''commentCard'', Action_Data = \<lparr>Data_Text = ''''\<rparr>,
       Action_Date = ''2023-05-02T10:30:00.000Z'', Action_MemberCreator = demo_member ''u3''\<rparr>,
      \<lparr>Action_Type = ''commentCard'', Action_Data = \<lparr>Data_Text = ''no date''\<rparr>,
       Action_Date = ''yesterday'', Action_MemberCreator = demo_member ''u2''\<rparr>,
      \<lparr>Action_Type = ''createCard'', Action_Data = \<lparr>Data_Text = ''''\<rparr>,
       Action_Date = ''2023-05-02T10:30:00.000Z'', Action_MemberCreator = demo_member ''u2''\<rparr>]"

definition demo_checklists :: "Checklist list" where
  "demo_checklists =
     [\<lparr>Checklist_Name = ''Checklist'',
       Checklist_CheckItems =
         [\<lparr>Item_Name = ''Tests'', Item_State = ''complete''\<rparr>,
          \<lparr>Item_Name = ''Docs'', Item_State = ''incomplete''\<rparr>]\<rparr>,
      \<lparr>Checklist_Name = ''Release'',
       Checklist_CheckItems = [\<lparr>Item_Name = ''Tag'', Item_State = ''Complete''\<rparr>]\<rparr>]"

definition demo_trello_card :: trello_Card where
  "demo_trello_card =
     \<lparr>TCard_Id = ''c1'', TCard_IdList = ''l1'', TCard_Name = ''Fix login bug'',
      TCard_Desc = ''desc'', TCard_Labels = [\<lparr>Label_Name = ''bug''\<rparr>],
      TCard_Due = '''', TCard_Pos = 1, TCard_ShortUrl = ''https://trello.com/c/c1'',
      TCard_IdMembers = [''u1'', ''u2'']\<rparr>"

definition demo_attachment :: "string \<Rightarrow> Attachment" where
  "demo_attachment name =
     \<lparr>Attachment_Name = name, Attachment_Url = ''https://trello.com/att/'' @ name\<rparr>"

definition demo_opts :: ClubhouseOptions where
  "demo_opts =
     \<lparr>Opts_ClubhouseEntry =
        \<lparr>ListStories_err = (\<lambda>p. None), DeleteStory_err = (\<lambda>i. None),
         CreateStory_err = (\<lambda>cs. None), CreateLinkedFiles_err = (\<lambda>lf. None)\<rparr>,
      Opts_Project_ID = 7, Opts_State_ID = 500, Opts_StoryType = ''feature'',
      Opts_AddCommentWithTrelloLink = True, Opts_ImportMember_ID = ''importer''\<rparr>"

definition demo_um :: UserMap where
  "demo_um tid = (if tid = ''u1'' then ''ch-1'' else if tid = ''u2'' then ''ch-2'' else '''')"

definition demo_world :: World where
  "demo_world =
     \<lparr>stories = [\<lparr>Story_ID = 1, Story_Name = ''Fix login bug'', Story_ProjectID = 7\<rparr>,
                 \<lparr>Story_ID = 2, Story_Name = ''Fix login bug'', Story_ProjectID = 8\<rparr>,
                 \<lparr>Story_ID = 3, Story_Name = ''Other'', Story_ProjectID = 7\<rparr>],
      next_story_id = 4, linked_files = [], next_file_id = 1,
      time_Now = 1700000000000000000, stdout = []\<rparr>"

definition demo_comment :: "string \<Rightarrow> Time option \<Rightarrow> Comment" where
  "demo_comment txt t =
     \<lparr>Comment_Text = txt, Comment_IDCreator = ''u2'', Comment_CreatorName = ''Member u2'',
      Comment_CreatedAt = t\<rparr>"

definition demo_card :: "string \<Rightarrow> Comment list \<Rightarrow> Card" where
  "demo_card name comments =
     \<lparr>Card_Name = name, Card_Desc = ''desc'', Card_Labels = [''bug''],
      Card_DueDate = None, Card_IDCreator = ''u1'', Card_IDOwners = [''u2'', ''u1'', ''u2''],
      Card_CreatedAt = Some 1682899200000000000, Card_Comments = comments,
      Card_Tasks = [\<lparr>Task_Completed = True, Task_Description = ''Checklist - Tests''\<rparr>],
      Card_Position = 1, Card_ShortURL = ''https://trello.com/c/'' @ name,
      Card_Attachments = [(''a.png'', ''https://www.dropbox.com/s/abc'')]\<rparr>"



section \<open>Properties of the card normalizer\<close>

subsection \<open>The loops as list functions\<close>

lemma items_loop_eq:
  "items_loop n its acc =
     acc @ map (\<lambda>i. \<lparr>Task_Completed = (Item_State i = ''complete''),
                       Task_Description = n @ '' - '' @ Item_Name i\<rparr>) its"
  by (induction its arbitrary: acc) simp_all

lemma checklists_loop_eq:
  "checklists_loop cls acc =
     acc @ concat (map (\<lambda>cl. map (\<lambda>i. \<lparr>Task_Completed = (Item_State i = ''complete''),
                                         Task_Description =
                                           Checklist_Name cl @ '' - '' @ Item_Name i\<rparr>)
                                 (Checklist_CheckItems cl)) cls)"
  by (induction cls arbitrary: acc) (simp_all add: items_loop_eq)

lemma actions_loop_comments:
  "snd (snd (actions_loop env as (cr, ca, cms))) =
     cms @ map (\<lambda>a. \<lparr>Comment_Text = Data_Text (Action_Data a),
                      Comment_IDCreator = Member_Id (Action_MemberCreator a),
                      Comment_CreatorName = Member_FullName (Action_MemberCreator a),
                      Comment_CreatedAt = parseDateOrReturnNil env (Action_Date a)\<rparr>)
               (filter (\<lambda>a. Action_Type a = ''commentCard'' \<and> Data_Text (Action_Data a) \<noteq> '''')
                  as)"
  by (induction as arbitrary: cr ca cms) simp_all

lemma actions_loop_creator:
  "fst (actions_loop env as (cr, ca, cms)) =
     (case filter (\<lambda>a. Action_Type a = ''createCard'') as of
        [] \<Rightarrow> cr
      | x # xs \<Rightarrow> Member_Id (Action_MemberCreator (last (x # xs))))"
  "fst (snd (actions_loop env as (cr, ca, cms))) =
     (case filter (\<lambda>a. Action_Type a = ''createCard'') as of
        [] \<Rightarrow> ca
      | x # xs \<Rightarrow> parseDateOrReturnNil env (Action_Date (last (x # xs))))"
  by (induction as arbitrary: cr ca cms) (auto split: list.splits)

subsection \<open>Creator and creation date\<close>

text \<open>
  Claim C3. Let \<open>created\<close> be the \<open>createCard\<close> actions of the card, in the order of the
  action list. The creator and the creation date that \<open>getCommentsAndCardCreator\<close>
  returns are the member id and the parsed date of the last of them (of the only one,
  when there is one); when there is none, the creator is the empty string and the date is
  absent. The function returns a plain triple: it has no way to fail.
\<close>

theorem getCommentsAndCardCreator_creator:
  "(let created = filter (\<lambda>a. Action_Type a = ''createCard'') (fst (card_Actions env crd))
    in fst (getCommentsAndCardCreator env crd) =
         (if created = [] then '''' else Member_Id (Action_MemberCreator (last created)))
       \<and> fst (snd (getCommentsAndCardCreator env crd)) =
         (if created = [] then None
          else parseDateOrReturnNil env (Action_Date (last created)))
       \<and> (\<forall>a. created = [a] \<longrightarrow>
             fst (getCommentsAndCardCreator env crd) = Member_Id (Action_MemberCreator a)
             \<and> fst (snd (getCommentsAndCardCreator env crd))
                 = parseDateOrReturnNil env (Action_Date a)))"
  by (simp add: getCommentsAndCardCreator_def actions_loop_creator Let_def
      split: prod.split list.split)

text \<open>
  Two \<open>createCard\<close> actions (the last one wins), exactly one, and none.
\<close>

theorem getCommentsAndCardCreator_creator_witness:
  "fst (getCommentsAndCardCreator (demo_env demo_actions [] []) demo_trello_card) = ''u2''
   \<and> fst (snd (getCommentsAndCardCreator (demo_env demo_actions [] []) demo_trello_card))
       = Some 1683023400000000000
   \<and> filter (\<lambda>a. Action_Type a = ''createCard'') (take 2 demo_actions) = [demo_actions ! 0]
   \<and> fst (getCommentsAndCardCreator (demo_env (take 2 demo_actions) [] []) demo_trello_card)
       = ''u1''
   \<and> fst (snd (getCommentsAndCardCreator (demo_env (take 2 demo_actions) [] [])
                 demo_trello_card))
       = Some 1682899200000000000
   \<and> fst (getCommentsAndCardCreator (demo_env [] [] []) demo_trello_card) = ''''
   \<and> fst (snd (getCommentsAndCardCreator (demo_env [] [] []) demo_trello_card)) = None"
  using getCommentsAndCardCreator_creator [of "demo_env demo_actions [] []" demo_trello_card]
    getCommentsAndCardCreator_creator [of "demo_env (take 2 demo_actions) [] []" demo_trello_card]
    getCommentsAndCardCreator_creator [of "demo_env [] [] []" demo_trello_card]
  by (simp add: demo_env_def demo_actions_def demo_member_def parseDateOrReturnNil_def
      demo_time_Parse_def Let_def)

subsection \<open>Tasks\<close>

text \<open>
  Claim C4. The tasks of a card are, checklist after checklist and item after item in the
  order of the source, one task per item: it is completed exactly when the state of the
  item is the string \<open>complete\<close>, and its description is the name of the checklist,
  \<open>" - "\<close> and the name of the item.
\<close>

theorem getCheckListsForCard_tasks:
  "getCheckListsForCard env crd =
     concat (map (\<lambda>cl. map (\<lambda>i. \<lparr>Task_Completed = (Item_State i = ''complete''),
                                  Task_Description =
                                    Checklist_Name cl @ '' - '' @ Item_Name i\<rparr>)
                          (Checklist_CheckItems cl))
              (fst (card_Checklists env crd)))"
  by (simp add: getCheckListsForCard_def checklists_loop_eq split: prod.split)

theorem getCheckListsForCard_tasks_witness:
  "getCheckListsForCard (demo_env [] demo_checklists []) demo_trello_card =
     [\<lparr>Task_Completed = True, Task_Description = ''Checklist - Tests''\<rparr>,
      \<lparr>Task_Completed = False, Task_Description = ''Checklist - Docs''\<rparr>,
      \<lparr>Task_Completed = False, Task_Description = ''Release - Tag''\<rparr>]"
  using getCheckListsForCard_tasks [of "demo_env [] demo_checklists []" demo_trello_card]
  by (simp add: demo_env_def demo_checklists_def)

subsection \<open>Comments\<close>

text \<open>
  Claim C5. The comments of a card are, in the order of the action list, one comment for
  each \<open>commentCard\<close> action whose text is not empty, with the text, the id and the full
  name of the member and the parsed date of the action. A \<open>commentCard\<close> action with an
  empty text is not among the filtered actions, so it gives no comment.
\<close>

theorem getCommentsAndCardCreator_comments:
  "snd (snd (getCommentsAndCardCreator env crd)) =
     map (\<lambda>a. \<lparr>Comment_Text = Data_Text (Action_Data a),
                Comment_IDCreator = Member_Id (Action_MemberCreator a),
                Comment_CreatorName = Member_FullName (Action_MemberCreator a),
                Comment_CreatedAt = parseDateOrReturnNil env (Action_Date a)\<rparr>)
         (filter (\<lambda>a. Action_Type a = ''commentCard'' \<and> Data_Text (Action_Data a) \<noteq> '''')
            (fst (card_Actions env crd)))"
  by (simp add: getCommentsAndCardCreator_def actions_loop_comments split: prod.split)

text \<open>
  Five actions, three of them comments, one of these with an empty text: two comments.
\<close>

theorem getCommentsAndCardCreator_comments_witness:
  "snd (snd (getCommentsAndCardCreator (demo_env demo_actions [] []) demo_trello_card)) =
     [\<lparr>Comment_Text = ''LGTM'', Comment_IDCreator = ''u1'', Comment_CreatorName = ''Member u1'',
       Comment_CreatedAt = Some 1683023400000000000\<rparr>,
      \<lparr>Comment_Text = ''no date'', Comment_IDCreator = ''u2'',
       Comment_CreatorName = ''Member u2'', Comment_CreatedAt = None\<rparr>]"
  using getCommentsAndCardCreator_comments [of "demo_env demo_actions [] []" demo_trello_card]
  by (simp add: demo_env_def demo_actions_def demo_member_def parseDateOrReturnNil_def
      demo_time_Parse_def)

subsection \<open>Dates\<close>

text \<open>
  Claim C7. \<open>parseDateOrReturnNil\<close> gives the date that \<open>time.Parse\<close> returns for the
  layout \<open>2006-01-02T15:04:05.000Z\<close>, and the absent value whenever \<open>time.Parse\<close> returns
  an error, whatever the string. Its result has no error in it, and a card is built
  whatever its dates are: without attachments to relocate, the exporter returns a card
  for every Trello card, with the due date and the creation date so parsed.
\<close>

theorem parseDateOrReturnNil_total:
  "parseDateOrReturnNil env s =
     (case time_Parse env ''2006-01-02T15:04:05.000Z'' s of Inl e \<Rightarrow> None | Inr d \<Rightarrow> Some d)
   \<and> (\<exists>c. export_card env \<lparr>ProcessImages = False\<rparr> crd = Inr c
          \<and> Card_DueDate c = parseDateOrReturnNil env (TCard_Due crd)
          \<and> Card_CreatedAt c = fst (snd (getCommentsAndCardCreator env crd)))"
  by (simp add: parseDateOrReturnNil_def dateLayout_def export_card_def Let_def
      split: prod.split)

text \<open>The empty string, a date in another format, and a date in the layout.\<close>

theorem parseDateOrReturnNil_total_witness:
  "parseDateOrReturnNil (demo_env demo_actions [] []) '''' = None
   \<and> parseDateOrReturnNil (demo_env demo_actions [] []) ''01/05/2023'' = None
   \<and> parseDateOrReturnNil (demo_env demo_actions [] []) ''2023-05-01T00:00:00.000Z''
       = Some 1682899200000000000"
  using parseDateOrReturnNil_total [of "demo_env demo_actions [] []" "''''"]
    parseDateOrReturnNil_total [of "demo_env demo_actions [] []" "''01/05/2023''"]
    parseDateOrReturnNil_total [of "demo_env demo_actions [] []" "''2023-05-01T00:00:00.000Z''"]
  by (simp add: demo_env_def demo_time_Parse_def)

section \<open>Properties of the attachment relocator\<close>

subsection \<open>File names\<close>

lemma safeFileNameRegexp_safe: "safeFileNameClass c \<Longrightarrow> safeFileNameRegexp (c # cs) = 0"
  by (simp add: safeFileNameRegexp_def)

lemma ReplaceAllString_unchanged:
  "list_all safeFileNameClass s \<Longrightarrow> ReplaceAllString s repl = s"
  by (induction s) (simp_all add: safeFileNameRegexp_safe)

lemma length_takeWhile_lt:
  "x \<in> set xs \<Longrightarrow> \<not> P x \<Longrightarrow> length (takeWhile P xs) < length xs"
  by (induction xs) auto

text \<open>A run of characters outside the class that ends where the string ends or a character
  of the class follows is replaced as a whole.\<close>

lemma ReplaceAllString_run:
  assumes "bad \<noteq> []" "list_all (\<lambda>c. \<not> safeFileNameClass c) bad"
    and "ys = [] \<or> safeFileNameClass (hd ys)"
  shows "ReplaceAllString (bad @ ys) repl = repl @ ReplaceAllString ys repl"
proof -
  obtain b bs where b: "bad = b # bs" using assms(1) by (cases bad) auto
  have tw: "takeWhile (\<lambda>c. \<not> safeFileNameClass c) (bad @ ys) = bad"
  proof (cases ys)
    case Nil
    then show ?thesis using assms(2) by (simp add: list_all_iff)
  next
    case (Cons y ys')
    then have "safeFileNameClass y" using assms(3) by simp
    then show ?thesis using assms(2) Cons
      by (simp add: list_all_iff takeWhile_append2)
  qed
  have n: "safeFileNameRegexp (b # bs @ ys) = length bad"
    using tw b by (simp add: safeFileNameRegexp_def)
  have "ReplaceAllString (b # bs @ ys) repl =
          repl @ ReplaceAllString (drop (length bad) (b # bs @ ys)) repl"
    using n b by (simp del: drop_Suc_Cons)
  then show ?thesis using b by simp
qed

text \<open>The scan of a string that ends inside the class does not look at what follows it.\<close>

lemma ReplaceAllString_append:
  "xs = [] \<or> safeFileNameClass (last xs) \<Longrightarrow>
   ReplaceAllString (xs @ zs) repl = ReplaceAllString xs repl @ ReplaceAllString zs repl"
proof (induction xs repl rule: ReplaceAllString.induct)
  case (1 repl)
  then show ?case by simp
next
  case (2 c cs repl)
  let ?P = "\<lambda>c. \<not> safeFileNameClass c"
  have lastsafe: "safeFileNameClass (last (c # cs))" using 2(3) by simp
  show ?case
  proof (cases "safeFileNameClass c")
    case True
    have "cs = [] \<or> safeFileNameClass (last cs)" using lastsafe by (cases cs) auto
    with True 2(1) [of "safeFileNameRegexp (c # cs)"] show ?thesis
      by (simp add: safeFileNameRegexp_safe)
  next
    case False
    have "\<exists>x\<in>set (c # cs). \<not> ?P x"
      using lastsafe last_in_set [of "c # cs"] by blast
    then obtain x where x: "x \<in> set (c # cs)" "\<not> ?P x" by blast
    have tw: "takeWhile ?P ((c # cs) @ zs) = takeWhile ?P (c # cs)"
      using takeWhile_append1 [of x "c # cs" ?P zs] x by simp
    define n where "n = safeFileNameRegexp (c # cs)"
    have n': "safeFileNameRegexp (c # cs @ zs) = n"
      using tw by (simp add: n_def safeFileNameRegexp_def)
    have npos: "n \<noteq> 0" using False by (simp add: n_def safeFileNameRegexp_def)
    have nlt: "n < length (c # cs)"
    proof -
      have "length (takeWhile ?P (c # cs)) < length (c # cs)"
        using x by (rule length_takeWhile_lt)
      then show ?thesis by (simp add: n_def safeFileNameRegexp_def)
    qed
    have dr: "drop n (c # cs @ zs) = drop n (c # cs) @ zs"
      using nlt drop_append [of n "c # cs" zs] by (simp del: drop_Suc_Cons)
    have "last (drop n (c # cs)) = last (c # cs)"
      using nlt last_drop [of n "c # cs"] by (simp del: drop_Suc_Cons)
    then have cond: "drop n (c # cs) = [] \<or> safeFileNameClass (last (drop n (c # cs)))"
      using lastsafe by simp
    have ih: "ReplaceAllString (drop n (c # cs) @ zs) repl =
              ReplaceAllString (drop n (c # cs)) repl @ ReplaceAllString zs repl"
      using 2(2) [of n] npos cond by (simp add: n_def)
    have l: "ReplaceAllString (c # cs @ zs) repl =
               repl @ ReplaceAllString (drop n (c # cs @ zs)) repl"
      using n' npos by (simp del: drop_Suc_Cons)
    have r: "ReplaceAllString (c # cs) repl = repl @ ReplaceAllString (drop n (c # cs)) repl"
      using npos by (simp add: n_def del: drop_Suc_Cons)
    show ?thesis using l r ih dr by simp
  qed
qed

text \<open>
  The runs of \<open>maximal_runs\<close> are what their name says: together they are the string,
  none is empty, each lies inside the class or outside it, and neighbours lie on
  different sides.
\<close>

lemma maximal_runs_hd:
  "maximal_runs (d # ds) \<noteq> [] \<and> hd (maximal_runs (d # ds)) \<noteq> []
   \<and> hd (hd (maximal_runs (d # ds))) = d"
  by (simp split: list.split)

lemma concat_maximal_runs: "concat (maximal_runs s) = s"
  by (induction s) (auto split: list.split)

lemma maximal_runs_homogeneous:
  "\<forall>r\<in>set (maximal_runs s).
     r \<noteq> [] \<and> (list_all safeFileNameClass r \<or> list_all (\<lambda>c. \<not> safeFileNameClass c) r)"
proof (induction s)
  case Nil
  then show ?case by simp
next
  case (Cons c cs)
  show ?case
  proof (cases "maximal_runs cs")
    case Nil
    then show ?thesis by simp
  next
    case (Cons r' rs)
    have ih: "\<forall>r\<in>set (r' # rs).
        r \<noteq> [] \<and> (list_all safeFileNameClass r \<or> list_all (\<lambda>c. \<not> safeFileNameClass c) r)"
      using Cons.IH Cons by simp
    show ?thesis
    proof (cases "safeFileNameClass c = safeFileNameClass (hd r')")
      case True
      then have m: "maximal_runs (c # cs) = (c # r') # rs" using Cons by simp
      show ?thesis unfolding m using ih True by (cases r') auto
    next
      case False
      then have m: "maximal_runs (c # cs) = [c] # r' # rs" using Cons by simp
      show ?thesis unfolding m using ih by simp
    qed
  qed
qed

lemma maximal_runs_alternate:
  "Suc i < length (maximal_runs s) \<Longrightarrow>
   safeFileNameClass (hd (maximal_runs s ! i)) \<noteq> safeFileNameClass (hd (maximal_runs s ! Suc i))"
proof (induction s arbitrary: i)
  case Nil
  then show ?case by simp
next
  case (Cons c cs)
  show ?case
  proof (cases "maximal_runs cs")
    case Nil
    then show ?thesis using Cons.prems by simp
  next
    case (Cons r rs)
    show ?thesis
    proof (cases "safeFileNameClass c = safeFileNameClass (hd r)")
      case True
      then have m: "maximal_runs (c # cs) = (c # r) # rs" using Cons by simp
      show ?thesis
      proof (cases i)
        case 0
        then show ?thesis using m Cons Cons.prems Cons.IH [of 0] True by simp
      next
        case (Suc j)
        then show ?thesis using m Cons Cons.prems Cons.IH [of i] by simp
      qed
    next
      case False
      then have m: "maximal_runs (c # cs) = [c] # r # rs" using Cons by simp
      show ?thesis
      proof (cases i)
        case 0
        then show ?thesis using m False by simp
      next
        case (Suc j)
        then show ?thesis using m Cons Cons.prems Cons.IH [of j] by simp
      qed
    qed
  qed
qed

text \<open>The scan of \<open>ReplaceAllString\<close> computes \<open>sanitize_spec\<close>.\<close>

lemma sanitize_spec_Nil: "sanitize_spec [] = []"
  by (simp add: sanitize_spec_def)

lemma sanitize_spec_safe:
  "safeFileNameClass c \<Longrightarrow> sanitize_spec (c # cs) = c # sanitize_spec cs"
  using maximal_runs_hd
  by (cases cs) (auto simp: sanitize_spec_def split: list.split)

lemma sanitize_spec_unsafe:
  "\<not> safeFileNameClass c \<Longrightarrow>
   sanitize_spec (c # cs) = ''_'' @ sanitize_spec (dropWhile (\<lambda>c. \<not> safeFileNameClass c) cs)"
proof (induction cs arbitrary: c)
  case Nil
  then show ?case by (simp add: sanitize_spec_def)
next
  case (Cons d ds)
  obtain r rs where r: "maximal_runs (d # ds) = r # rs" "r \<noteq> []" "hd r = d"
    using maximal_runs_hd [of d ds] by (cases "maximal_runs (d # ds)") auto
  show ?case
  proof (cases "safeFileNameClass d")
    case True
    then have "maximal_runs (c # d # ds) = [c] # r # rs"
      using r Cons.prems by (simp del: maximal_runs.simps(2) add: maximal_runs.simps(2) [of c])
    then show ?thesis using True Cons.prems r by (simp add: sanitize_spec_def)
  next
    case False
    then have "maximal_runs (c # d # ds) = (c # r) # rs"
      using r Cons.prems by (simp del: maximal_runs.simps(2) add: maximal_runs.simps(2) [of c])
    then have "sanitize_spec (c # d # ds) = sanitize_spec (d # ds)"
      using False Cons.prems r by (simp add: sanitize_spec_def)
    then show ?thesis using Cons.IH [OF False] False by simp
  qed
qed

lemma ReplaceAllString_refines: "ReplaceAllString s ''_'' = sanitize_spec s"
proof (induction s "''_''" rule: ReplaceAllString.induct)
  case 1
  then show ?case by (simp add: sanitize_spec_Nil)
next
  case (2 c cs)
  let ?P = "\<lambda>c. \<not> safeFileNameClass c"
  show ?case
  proof (cases "safeFileNameClass c")
    case True
    then show ?thesis using 2(1) by (simp add: safeFileNameRegexp_def sanitize_spec_safe)
  next
    case False
    define n where "n = safeFileNameRegexp (c # cs)"
    have npos: "n \<noteq> 0" using False by (simp add: n_def safeFileNameRegexp_def)
    have "drop n (c # cs) = dropWhile ?P (c # cs)"
      unfolding n_def safeFileNameRegexp_def by (rule dropWhile_eq_drop [symmetric])
    then have dr: "drop n (c # cs) = dropWhile ?P cs" using False by simp
    have "ReplaceAllString (c # cs) ''_'' = ''_'' @ ReplaceAllString (drop n (c # cs)) ''_''"
      using npos by (simp add: n_def del: drop_Suc_Cons)
    moreover have "ReplaceAllString (drop n (c # cs)) ''_'' = sanitize_spec (drop n (c # cs))"
      using 2(2) [of n] npos by (simp add: n_def)
    ultimately show ?thesis using dr sanitize_spec_unsafe [OF False, of cs] by simp
  qed
qed

text \<open>
  Claim C6. Sanitizing a name with \<open>safeFileNameRegexp.ReplaceAllString(name, "_")\<close>
  replaces every maximal run of characters outside the class \<^verbatim>\<open>[A-Za-z0-9_.]\<close> by one
  underscore and keeps the rest: it computes \<open>sanitize_spec\<close>. So it leaves a name
  unchanged when all its characters are in the class; it replaces a maximal run \<open>bad\<close>
  (one that is not empty, with no character outside the class right before or right
  after it) by one underscore, and sanitizes what stands before and after the run on its
  own; and it turns \<open>My File #1.png\<close> into \<open>My_File_1.png\<close>.
\<close>

theorem ReplaceAllString_sanitizes:
  "ReplaceAllString s ''_'' = sanitize_spec s
   \<and> (list_all safeFileNameClass s \<longrightarrow> ReplaceAllString s ''_'' = s)
   \<and> ((xs = [] \<or> safeFileNameClass (last xs)) \<and> bad \<noteq> []
        \<and> list_all (\<lambda>c. \<not> safeFileNameClass c) bad
        \<and> (ys = [] \<or> safeFileNameClass (hd ys)) \<longrightarrow>
      ReplaceAllString (xs @ bad @ ys) ''_'' =
        ReplaceAllString xs ''_'' @ ''_'' @ ReplaceAllString ys ''_'')
   \<and> ReplaceAllString ''My File #1.png'' ''_'' = ''My_File_1.png''"
proof (intro conjI impI)
  show "ReplaceAllString s ''_'' = sanitize_spec s"
    by (rule ReplaceAllString_refines)
  show "ReplaceAllString ''My File #1.png'' ''_'' = ''My_File_1.png''"
    by (simp add: safeFileNameRegexp_def safeFileNameClass_def)
  show "ReplaceAllString s ''_'' = s" if "list_all safeFileNameClass s"
    using that by (rule ReplaceAllString_unchanged)
  show "ReplaceAllString (xs @ bad @ ys) ''_'' =
      ReplaceAllString xs ''_'' @ ''_'' @ ReplaceAllString ys ''_''"
    if "(xs = [] \<or> safeFileNameClass (last xs)) \<and> bad \<noteq> []
        \<and> list_all (\<lambda>c. \<not> safeFileNameClass c) bad
        \<and> (ys = [] \<or> safeFileNameClass (hd ys))"
  proof -
    have "ReplaceAllString (xs @ bad @ ys) ''_'' =
        ReplaceAllString xs ''_'' @ ReplaceAllString (bad @ ys) ''_''"
      using that by (intro ReplaceAllString_append) simp
    also have "ReplaceAllString (bad @ ys) ''_'' = ''_'' @ ReplaceAllString ys ''_''"
      using that by (intro ReplaceAllString_run) simp_all
    finally show ?thesis .
  qed
qed

theorem ReplaceAllString_sanitizes_witness:
  "maximal_runs ''My File #1.png'' = [''My'', '' '', ''File'', '' #'', ''1.png'']
   \<and> sanitize_spec ''My File #1.png'' = ''My_File_1.png''
   \<and> list_all safeFileNameClass ''report_v1.2.PDF''
   \<and> ReplaceAllString ''report_v1.2.PDF'' ''_'' = ''report_v1.2.PDF''
   \<and> safeFileNameClass (last ''My'') \<and> list_all (\<lambda>c. \<not> safeFileNameClass c) '' #''
   \<and> safeFileNameClass (hd ''1.png'')
   \<and> ReplaceAllString (''My'' @ '' #'' @ ''1.png'') ''_'' = ''My_1.png''"
  using ReplaceAllString_sanitizes [of "''report_v1.2.PDF''" "''My''" "'' #''" "''1.png''"]
  by (simp add: safeFileNameClass_def safeFileNameRegexp_def sanitize_spec_def)

subsection \<open>Shared links\<close>

text \<open>
  \<open>getSharedLinks\<close> returns a \<open>nil\<close> pointer whatever Dropbox answers, so the link
  resolution panics when it reads \<open>links.Links\<close>, every iteration of the loop ends the
  process, and a card with an attachment never gets a map of attachments.
\<close>

lemma getSharedLinks_nil: "getSharedLinks env path = (None, None)"
  by (simp add: getSharedLinks_def Let_def)

lemma createShareLink_nil: "createShareLink env path = (None, None)"
  by (simp add: createShareLink_def Let_def)

lemma resolveLink_panics: "resolveLink env name out sharedLinks = Inl NilPointerDereference"
  by (simp add: resolveLink_def getSharedLinks_nil)

lemma attachment_step_aborts: "\<exists>e. attachment_step env crd err i f sharedLinks = Inl e"
  by (auto simp: attachment_step_def resolveLink_panics Let_def
      split: sum.split option.split prod.split)

lemma downloadCardAttachmentsUploadToDropbox_aborts:
  "fst (card_Attachments env crd) \<noteq> [] \<Longrightarrow>
   \<exists>e. downloadCardAttachmentsUploadToDropbox env crd = Inl e"
proof -
  assume ne: "fst (card_Attachments env crd) \<noteq> []"
  obtain atts aerr where a: "card_Attachments env crd = (atts, aerr)"
    by (cases "card_Attachments env crd")
  obtain f fs where f: "atts = f # fs" using ne a by (cases atts) auto
  obtain e where "attachment_step env crd None 0 f [] = Inl e"
    using attachment_step_aborts by blast
  then show ?thesis using a f
    by (cases aerr) (simp_all add: downloadCardAttachmentsUploadToDropbox_def)
qed

lemma downloadCardAttachmentsUploadToDropbox_returns:
  "downloadCardAttachmentsUploadToDropbox env crd = Inr m \<Longrightarrow>
   m = [] \<and> fst (card_Attachments env crd) = []"
proof -
  assume r: "downloadCardAttachmentsUploadToDropbox env crd = Inr m"
  have e: "fst (card_Attachments env crd) = []"
    using r downloadCardAttachmentsUploadToDropbox_aborts [of env crd] by auto
  then show ?thesis using r
    by (cases "card_Attachments env crd")
       (auto simp: downloadCardAttachmentsUploadToDropbox_def split: option.splits)
qed

text \<open>
  Claim C2 (the code does not do what the claim says). The claim: the relocator asks for
  the shared links of the uploaded path and reuses the URL of an existing one, so that a
  second run gives the same URL. The code, on a card with the one attachment
  \<open>My File #1.png\<close> whose download and upload succeed and for whose path Dropbox lists
  a shared link: the request is posted, its answer is dropped, and the run ends in a nil
  pointer dereference, with no URL for the attachment.
\<close>

theorem downloadCardAttachmentsUploadToDropbox_existing_link_panics:
  "resty_Post (demo_env [] [] [demo_attachment ''My File #1.png''])
     ''https://api.dropboxapi.com/2//sharing/list_shared_links''
     \<lparr>Req_Path = ''/trello/l1/c1/0_My_File_1.png''\<rparr>
     = Inr (JObject [(''links'',
              JArray [JObject [(''url'', JString ''https://www.dropbox.com/s/abc''),
                               (''path_lower'', JString ''/trello/l1/c1/0_My_File_1.png'')]])])
   \<and> files_Upload (demo_env [] [] [demo_attachment ''My File #1.png''])
       \<lparr>Upload_Path = ''/trello/l1/c1/0_My_File_1.png'', Upload_Mode = ''overwrite'',
        Upload_AutoRename = False, Upload_Mute = True,
        Upload_ClientModified = ''2023-05-03T08:00:00Z'', Upload_Reader = ''bytes''\<rparr>
     = (Some \<lparr>PathDisplay = ''/trello/l1/c1/0_My_File_1.png''\<rparr>, None)
   \<and> attachment_step (demo_env [] [] [demo_attachment ''My File #1.png'']) demo_trello_card
       None 0 (demo_attachment ''My File #1.png'') []
     = resolveLink (demo_env [] [] [demo_attachment ''My File #1.png'']) ''My_File_1.png''
         \<lparr>PathDisplay = ''/trello/l1/c1/0_My_File_1.png''\<rparr> []
   \<and> resolveLink (demo_env [] [] [demo_attachment ''My File #1.png'']) ''My_File_1.png''
         \<lparr>PathDisplay = ''/trello/l1/c1/0_My_File_1.png''\<rparr> []
     = Inl NilPointerDereference
   \<and> downloadCardAttachmentsUploadToDropbox
       (demo_env [] [] [demo_attachment ''My File #1.png'']) demo_trello_card
     = Inl NilPointerDereference"
proof (intro conjI)
  show "attachment_step (demo_env [] [] [demo_attachment ''My File #1.png'']) demo_trello_card
       None 0 (demo_attachment ''My File #1.png'') []
     = resolveLink (demo_env [] [] [demo_attachment ''My File #1.png'']) ''My_File_1.png''
         \<lparr>PathDisplay = ''/trello/l1/c1/0_My_File_1.png''\<rparr> []"
    by (simp add: demo_env_def demo_attachment_def demo_trello_card_def attachment_step_def
        downloadTrelloAttachment_def Let_def safeFileNameRegexp_def safeFileNameClass_def
        Sprintf_d_def decimal_digits.simps)
  show "downloadCardAttachmentsUploadToDropbox
       (demo_env [] [] [demo_attachment ''My File #1.png'']) demo_trello_card
     = Inl NilPointerDereference"
    by (simp add: demo_env_def demo_attachment_def demo_trello_card_def
        downloadCardAttachmentsUploadToDropbox_def attachment_step_def
        downloadTrelloAttachment_def resolveLink_panics Let_def)
qed (simp_all add: demo_env_def resolveLink_panics)

text \<open>
  Claim C10 (the code does not do what the claim says). The claim: when two attachments
  of a card have the same sanitized name, the URL of the later one replaces the URL of
  the earlier one in the map. The code, on a card with the attachments \<open>a b.png\<close> and
  \<open>a#b.png\<close>, both sanitized to \<open>a_b.png\<close>: the run ends in the nil pointer
  dereference at the first attachment, and there is no map.
\<close>

theorem downloadCardAttachmentsUploadToDropbox_same_name_panics:
  "ReplaceAllString ''a b.png'' ''_'' = ''a_b.png''
   \<and> ReplaceAllString ''a#b.png'' ''_'' = ''a_b.png''
   \<and> downloadCardAttachmentsUploadToDropbox
       (demo_env [] [] [demo_attachment ''a b.png'', demo_attachment ''a#b.png''])
       demo_trello_card
     = Inl NilPointerDereference"
  by (simp add: demo_env_def demo_attachment_def demo_trello_card_def
      downloadCardAttachmentsUploadToDropbox_def attachment_step_def
      downloadTrelloAttachment_def resolveLink_panics Let_def
      safeFileNameRegexp_def safeFileNameClass_def)

section \<open>Properties of the importer\<close>

subsection \<open>The request for a story\<close>

lemma owners_loop_eq: "owners_loop um xs acc = acc @ map (GetCreator um) xs"
  by (induction xs arbitrary: acc) simp_all

lemma comments_loop_eq:
  "comments_loop um cms acc =
     (if \<exists>cm\<in>set cms. Comment_CreatedAt cm = None then Inl NilPointerDereference
      else Inr (acc @ map (\<lambda>cm. \<lparr>CreateComment_CreatedAt = the (Comment_CreatedAt cm),
                                   CreateComment_AuthorID =
                                     GetCreator um (Comment_IDCreator cm),
                                   CreateComment_Text = Comment_Text cm\<rparr>) cms))"
  by (induction cms arbitrary: acc) (auto split: option.splits)

lemma buildComments_eq:
  "buildComments c add um now =
     (if \<exists>cm\<in>set (Card_Comments c). Comment_CreatedAt cm = None
      then Inl NilPointerDereference
      else Inr (map (\<lambda>cm. \<lparr>CreateComment_CreatedAt = the (Comment_CreatedAt cm),
                             CreateComment_AuthorID = GetCreator um (Comment_IDCreator cm),
                             CreateComment_Text = Comment_Text cm\<rparr>) (Card_Comments c)
                @ (if add
                   then [\<lparr>CreateComment_CreatedAt = now, CreateComment_AuthorID = '''',
                          CreateComment_Text =
                            ''Card imported from Trello: '' @ Card_ShortURL c\<rparr>]
                   else [])))"
  by (simp add: buildComments_def comments_loop_eq)

lemma buildClubhouseStory_eq:
  "fst (buildClubhouseStory c opts um w) =
     (case buildComments c (Opts_AddCommentWithTrelloLink opts) um (time_Now w) of
        Inl e \<Rightarrow> Inl e
      | Inr comments \<Rightarrow>
          Inr \<lparr>CreateStory_ProjectID = Opts_Project_ID opts,
               CreateStory_WorkflowStateID = Opts_State_ID opts,
               CreateStory_RequestedByID = GetCreator um (Card_IDCreator c),
               CreateStory_OwnerIds = mapOwnersFromTrelloCard c um,
               CreateStory_StoryType = Opts_StoryType opts,
               CreateStory_FollowerIds = [],
               CreateStory_FileIds = [],
               CreateStory_Name = Card_Name c,
               CreateStory_Description = Card_Desc c,
               CreateStory_Deadline = Card_DueDate c,
               CreateStory_CreatedAt = Card_CreatedAt c,
               CreateStory_Labels = buildLabels c,
               CreateStory_Tasks = buildTasks c,
               CreateStory_Comments = comments,
               CreateStory_LinkedFileIds = fst (buildLinkFiles c opts w)\<rparr>)"
  by (simp add: buildClubhouseStory_def Let_def split: sum.split prod.split)

text \<open>
  Claim C8. For every card, \<open>buildClubhouseStory\<close> either builds a request or panics,
  and it panics only on a card with a comment that has no creation date. In the request
  it builds, \<open>RequestedByID\<close> is the user the map gives for the creator of the card;
  \<open>OwnerIds\<close> are the users the map gives for the owners, as many and in the same order;
  the comments are the comments of the card, one for one and in order, each with the user
  the map gives for its author; and after them comes one more comment, with the text
  \<open>Card imported from Trello:\<close> and the URL of the card, exactly when
  \<open>AddCommentWithTrelloLink\<close> is set.
\<close>

theorem buildClubhouseStory_maps_identities:
  "(case fst (buildClubhouseStory c opts um w) of
      Inl e \<Rightarrow> e = NilPointerDereference
                \<and> (\<exists>cm\<in>set (Card_Comments c). Comment_CreatedAt cm = None)
    | Inr req \<Rightarrow>
        (\<forall>cm\<in>set (Card_Comments c). Comment_CreatedAt cm \<noteq> None)
        \<and> CreateStory_RequestedByID req = GetCreator um (Card_IDCreator c)
        \<and> CreateStory_OwnerIds req = map (GetCreator um) (Card_IDOwners c)
        \<and> CreateStory_Comments req =
            map (\<lambda>cm. \<lparr>CreateComment_CreatedAt = the (Comment_CreatedAt cm),
                         CreateComment_AuthorID = GetCreator um (Comment_IDCreator cm),
                         CreateComment_Text = Comment_Text cm\<rparr>) (Card_Comments c)
            @ (if Opts_AddCommentWithTrelloLink opts
               then [\<lparr>CreateComment_CreatedAt = time_Now w, CreateComment_AuthorID = '''',
                      CreateComment_Text =
                        ''Card imported from Trello: '' @ Card_ShortURL c\<rparr>]
               else []))"
  by (simp add: buildClubhouseStory_eq buildComments_eq mapOwnersFromTrelloCard_def
      owners_loop_eq)

text \<open>
  A card with three owners and one dated comment, imported with the link comment, and
  the same card without the link comment.
\<close>

theorem buildClubhouseStory_maps_identities_witness:
  "(case fst (buildClubhouseStory (demo_card ''A'' [demo_comment ''LGTM'' (Some 5)])
               demo_opts demo_um demo_world) of
      Inl e \<Rightarrow> False
    | Inr req \<Rightarrow>
        CreateStory_RequestedByID req = ''ch-1''
        \<and> CreateStory_OwnerIds req = [''ch-2'', ''ch-1'', ''ch-2'']
        \<and> CreateStory_Comments req =
            [\<lparr>CreateComment_CreatedAt = 5, CreateComment_AuthorID = ''ch-2'',
              CreateComment_Text = ''LGTM''\<rparr>,
             \<lparr>CreateComment_CreatedAt = 1700000000000000000, CreateComment_AuthorID = '''',
              CreateComment_Text = ''Card imported from Trello: https://trello.com/c/A''\<rparr>])
   \<and> (case fst (buildClubhouseStory (demo_card ''A'' [demo_comment ''LGTM'' (Some 5)])
               (demo_opts\<lparr>Opts_AddCommentWithTrelloLink := False\<rparr>) demo_um demo_world) of
      Inl e \<Rightarrow> False
    | Inr req \<Rightarrow>
        CreateStory_Comments req =
            [\<lparr>CreateComment_CreatedAt = 5, CreateComment_AuthorID = ''ch-2'',
              CreateComment_Text = ''LGTM''\<rparr>])"
  using buildClubhouseStory_maps_identities
      [where c = "demo_card ''A'' [demo_comment ''LGTM'' (Some 5)]"
        and opts = demo_opts and um = demo_um and w = demo_world]
    buildClubhouseStory_maps_identities
      [where c = "demo_card ''A'' [demo_comment ''LGTM'' (Some 5)]"
        and opts = "demo_opts\<lparr>Opts_AddCommentWithTrelloLink := False\<rparr>"
        and um = demo_um and w = demo_world]
  by (simp add: demo_card_def demo_comment_def demo_um_def demo_opts_def demo_world_def
      GetCreator_def split: sum.splits)

subsection \<open>Comments without a date\<close>

text \<open>
  Claim C9. \<open>buildComments\<close> reads \<open>*cm.CreatedAt\<close> for every comment: it panics with
  a nil pointer dereference exactly when some comment of the card has no creation date,
  and it returns the comments exactly when every comment has one. The normalizer makes
  such comments: a \<open>commentCard\<close> action with a text whose date \<open>time.Parse\<close> rejects
  becomes a comment without a creation date. The import of a card with such a comment
  panics: the comment is neither skipped nor given a default date.
\<close>

theorem buildComments_nil_dereference:
  "(buildComments c add um now = Inl NilPointerDereference
      \<longleftrightarrow> (\<exists>cm\<in>set (Card_Comments c). Comment_CreatedAt cm = None))
   \<and> ((\<exists>cs. buildComments c add um now = Inr cs)
      \<longleftrightarrow> (\<forall>cm\<in>set (Card_Comments c). Comment_CreatedAt cm \<noteq> None))
   \<and> (a \<in> set (fst (card_Actions env crd)) \<and> Action_Type a = ''commentCard''
        \<and> Data_Text (Action_Data a) \<noteq> '''' \<and> time_Parse env dateLayout (Action_Date a) = Inl e
      \<longrightarrow> (\<exists>cm\<in>set (snd (snd (getCommentsAndCardCreator env crd))).
             Comment_Text cm = Data_Text (Action_Data a) \<and> Comment_CreatedAt cm = None))
   \<and> ((\<exists>cm\<in>set (Card_Comments c). Comment_CreatedAt cm = None)
      \<longrightarrow> fst (import_card snapshot opts um' c w) = Some NilPointerDereference)"
proof (intro conjI impI)
  assume h: "a \<in> set (fst (card_Actions env crd)) \<and> Action_Type a = ''commentCard''
        \<and> Data_Text (Action_Data a) \<noteq> '''' \<and> time_Parse env dateLayout (Action_Date a) = Inl e"
  then have p: "parseDateOrReturnNil env (Action_Date a) = None"
    by (simp add: parseDateOrReturnNil_def)
  obtain actions lerr where l: "card_Actions env crd = (actions, lerr)"
    by (cases "card_Actions env crd")
  have "snd (snd (getCommentsAndCardCreator env crd)) =
     map (\<lambda>a. \<lparr>Comment_Text = Data_Text (Action_Data a),
                Comment_IDCreator = Member_Id (Action_MemberCreator a),
                Comment_CreatorName = Member_FullName (Action_MemberCreator a),
                Comment_CreatedAt = parseDateOrReturnNil env (Action_Date a)\<rparr>)
         (filter (\<lambda>a. Action_Type a = ''commentCard'' \<and> Data_Text (Action_Data a) \<noteq> '''')
            actions)"
    using l by (simp add: getCommentsAndCardCreator_def actions_loop_comments)
  with h p l
  show "\<exists>cm\<in>set (snd (snd (getCommentsAndCardCreator env crd))).
             Comment_Text cm = Data_Text (Action_Data a) \<and> Comment_CreatedAt cm = None"
    by (simp add: image_iff) force
next
  assume n: "\<exists>cm\<in>set (Card_Comments c). Comment_CreatedAt cm = None"
  let ?w1 = "deleteMatchingStories snapshot opts c w"
  have "fst (buildClubhouseStory c opts um' ?w1) = Inl NilPointerDereference"
    using n by (simp add: buildClubhouseStory_eq buildComments_eq)
  then show "fst (import_card snapshot opts um' c w) = Some NilPointerDereference"
    by (cases "buildClubhouseStory c opts um' ?w1") (simp add: import_card_def Let_def)
qed (auto simp: buildComments_eq)

text \<open>
  A card whose second comment has no date; a card whose only comment has one; the second
  comment that the normalizer makes of \<open>demo_actions\<close>, from the action dated
  \<open>yesterday\<close>; and the import of the first card.
\<close>

theorem buildComments_nil_dereference_witness:
  "buildComments (demo_card ''A'' [demo_comment ''LGTM'' (Some 5), demo_comment ''no date'' None])
      True demo_um 9 = Inl NilPointerDereference
   \<and> buildComments (demo_card ''A'' [demo_comment ''LGTM'' (Some 5)]) False demo_um 9
       = Inr [\<lparr>CreateComment_CreatedAt = 5, CreateComment_AuthorID = ''ch-2'',
              CreateComment_Text = ''LGTM''\<rparr>]
   \<and> (\<exists>cm\<in>set (snd (snd (getCommentsAndCardCreator (demo_env demo_actions [] [])
                               demo_trello_card))).
         Comment_Text cm = ''no date'' \<and> Comment_CreatedAt cm = None)
   \<and> fst (import_card [] demo_opts demo_um
            (demo_card ''A'' [demo_comment ''LGTM'' (Some 5), demo_comment ''no date'' None])
            demo_world)
       = Some NilPointerDereference"
proof -
  let ?c = "demo_card ''A'' [demo_comment ''LGTM'' (Some 5), demo_comment ''no date'' None]"
  have n: "\<exists>cm\<in>set (Card_Comments ?c). Comment_CreatedAt cm = None"
    by (simp add: demo_card_def demo_comment_def)
  note t = buildComments_nil_dereference [where c = ?c and add = True and um = demo_um
      and now = 9 and a = "demo_actions ! 3" and env = "demo_env demo_actions [] []"
      and crd = demo_trello_card and e = "''parsing time: cannot parse''"
      and snapshot = "[]" and opts = demo_opts and um' = demo_um and w = demo_world]
  have 1: "buildComments ?c True demo_um 9 = Inl NilPointerDereference"
    using t n by blast
  have 4: "fst (import_card [] demo_opts demo_um ?c demo_world) = Some NilPointerDereference"
    using t n by blast
  have 2: "buildComments (demo_card ''A'' [demo_comment ''LGTM'' (Some 5)]) False demo_um 9
       = Inr [\<lparr>CreateComment_CreatedAt = 5, CreateComment_AuthorID = ''ch-2'',
              CreateComment_Text = ''LGTM''\<rparr>]"
    by (simp add: demo_card_def demo_comment_def demo_um_def buildComments_def GetCreator_def)
  have h: "demo_actions ! 3 \<in> set (fst (card_Actions (demo_env demo_actions [] [])
                                           demo_trello_card))
      \<and> Action_Type (demo_actions ! 3) = ''commentCard''
      \<and> Data_Text (Action_Data (demo_actions ! 3)) \<noteq> ''''
      \<and> time_Parse (demo_env demo_actions [] []) dateLayout (Action_Date (demo_actions ! 3))
          = Inl ''parsing time: cannot parse''"
    by (simp add: demo_env_def demo_actions_def demo_time_Parse_def)
  have d: "Data_Text (Action_Data (demo_actions ! 3)) = ''no date''"
    by (simp add: demo_actions_def)
  have 3: "\<exists>cm\<in>set (snd (snd (getCommentsAndCardCreator (demo_env demo_actions [] [])
                               demo_trello_card))).
         Comment_Text cm = ''no date'' \<and> Comment_CreatedAt cm = None"
    using t h unfolding d by blast
  show ?thesis using 1 2 3 4 by simp
qed

subsection \<open>Stories with the name of a card\<close>

lemma print_fields [simp]:
  "stories (print l w) = stories w" "next_story_id (print l w) = next_story_id w"
  "time_Now (print l w) = time_Now w"
  by (simp_all add: print_def)

lemma count_stories_print [simp]: "count_stories (print l w) p n = count_stories w p n"
  by (simp add: count_stories_def)

lemma wf_world_print [simp]: "wf_world (print l w) = wf_world w"
  by (simp add: wf_world_def)












end
